theory Spec2Isabelle
  imports Main
begin

section \<open>Data model\<close>

text \<open>
  The message pipeline of the chat plugin (\<^verbatim>\<open>chat/message_handlers.py\<close>) works on four
  tables of the record store: \<^verbatim>\<open>message\<close>, \<^verbatim>\<open>conversation\<close>, \<^verbatim>\<open>user_conversation\<close> and
  the message history. A table is the list of its rows; record keys are strings, as
  \<^verbatim>\<open>record.id.key\<close> is in the source.
\<close>

type_synonym key = string

datatype error =
    AlreadyDeletedException
  | NotInConversationException
  | MessageNotFoundException
  | TypeError
  | AttributeError

text \<open>
  A message record. \<open>seq\<close> is the column the store assigns; the model takes it as the
  record carries it. \<open>message_status\<close> may be unset (\<^verbatim>\<open>None\<close>).
\<close>

record message =
  msg_id :: key
  conversation_id :: key
  seq :: int
  body :: string
  deleted :: bool
  revision :: int
  edited_at :: "nat option"
  edited_by :: "key option"
  message_status :: "string option"
  acl :: "string list"

record conversation =
  conv_id :: key
  last_message :: "key option"

record user_conversation =
  uc_user :: key
  uc_conversation :: key
  unread_count :: int
  last_read_message :: "key option"
  uc_updated_at :: nat

record db =
  message_table :: "message list"
  conversation_table :: "conversation list"
  user_conversation_table :: "user_conversation list"
  message_history_table :: "message list"

text \<open>
  What the handlers read from their surroundings: \<^verbatim>\<open>current_user_id()\<close>, the clock
  (\<^verbatim>\<open>datetime.utcnow()\<close>, \<^verbatim>\<open>CURRENT_TIMESTAMP\<close>) and \<^verbatim>\<open>Conversation.get_message_acl\<close>,
  whose code is not part of the sources at hand and is taken as a parameter.
\<close>

record env =
  current_user_id :: key
  utcnow :: nat
  get_message_acl :: "key \<Rightarrow> string list"

section \<open>Record classes\<close>

definition message_fetch_one :: "db \<Rightarrow> key \<Rightarrow> message option" where
  \<comment> \<open>Modelled from the spec: \<^verbatim>\<open>Message.fetch_one\<close> (chat/message.py is missing) loads the
      message with the given id, deleted or not, or returns \<^verbatim>\<open>None\<close>.\<close>
  "message_fetch_one d k = find (\<lambda>m. msg_id m = k) (message_table d)"

definition conversation_fetch_one :: "db \<Rightarrow> key \<Rightarrow> conversation option" where
  \<comment> \<open>Modelled from the spec: \<^verbatim>\<open>Conversation.fetch_one\<close> (chat/conversation.py is missing)
      loads the conversation with the given id.\<close>
  "conversation_fetch_one d k = find (\<lambda>c. conv_id c = k) (conversation_table d)"

definition user_conversation_fetch_one :: "env \<Rightarrow> db \<Rightarrow> key \<Rightarrow> user_conversation option" where
  \<comment> \<open>Modelled from the spec: \<^verbatim>\<open>UserConversation.fetch_one\<close> (chat/user_conversation.py is
      missing) finds the row of the pair (current actor, conversation).\<close>
  "user_conversation_fetch_one e d cid =
     find (\<lambda>u. uc_user u = current_user_id e \<and> uc_conversation u = cid)
       (user_conversation_table d)"

definition message_history_save :: "db \<Rightarrow> message \<Rightarrow> db" where
  \<comment> \<open>Modelled from the spec: \<^verbatim>\<open>MessageHistory(message).save()\<close> (chat/message_history.py is
      missing) appends a frozen copy of the message's fields to the history.\<close>
  "message_history_save d m = d\<lparr>message_history_table := message_history_table d @ [m]\<rparr>"

section \<open>The save hooks\<close>

text \<open>
  \<^verbatim>\<open>handle_message_before_save(record, original_record, conn)\<close>. The two guards come first,
  in the order of the source; the history row is written only on the update branch; the
  result is the record to persist together with the store as the hook left it.
\<close>

definition handle_message_before_save ::
  "env \<Rightarrow> db \<Rightarrow> message \<Rightarrow> message option \<Rightarrow> error + (message \<times> db)" where
  "handle_message_before_save e d record original_record =
     (if (case original_record of None \<Rightarrow> False | Some orig \<Rightarrow> deleted orig)
      then Inl AlreadyDeletedException
      else if user_conversation_fetch_one e d (conversation_id record) = None
      then Inl NotInConversationException
      else
        (let (m1, d1) =
               (case original_record of
                  None \<Rightarrow> (record\<lparr>deleted := False, revision := 1\<rparr>, d)
                | Some orig \<Rightarrow> (record, message_history_save d orig));
             m2 = m1\<lparr>edited_at := Some (utcnow e), edited_by := Some (current_user_id e)\<rparr>;
             m3 = (if message_status m2 = None
                   then m2\<lparr>message_status := Some ''delivered''\<rparr> else m2);
             m4 = m3\<lparr>acl := get_message_acl e (conversation_id m3)\<rparr>
         in Inr (m4, d1)))"

text \<open>
  \<^verbatim>\<open>handle_message_after_save(record, original_record, conn)\<close>. The notification is sent
  outside the store and changes none of the tables. On creation the two \<^verbatim>\<open>UPDATE\<close>
  statements run: the unread counters of the conversation's other participants, then the
  conversation's \<^verbatim>\<open>last_message\<close>, which receives \<^verbatim>\<open>record.id.key\<close>.
\<close>

definition handle_message_after_save :: "env \<Rightarrow> db \<Rightarrow> message \<Rightarrow> message option \<Rightarrow> db" where
  "handle_message_after_save e d record original_record =
     (if original_record = None then
        d\<lparr>user_conversation_table :=
             map (\<lambda>u. if uc_conversation u = conversation_id record
                          \<and> uc_user u \<noteq> current_user_id e
                       then u\<lparr>unread_count := unread_count u + 1, uc_updated_at := utcnow e\<rparr>
                       else u)
               (user_conversation_table d),
           conversation_table :=
             map (\<lambda>c. if conv_id c = conversation_id record
                       then c\<lparr>last_message := Some (msg_id record)\<rparr> else c)
               (conversation_table d)\<rparr>
      else d)"

section \<open>Saving a message record\<close>

definition store_message :: "db \<Rightarrow> message \<Rightarrow> db" where
  \<comment> \<open>Modelled from the spec: the record store's \<^verbatim>\<open>put(record)\<close> inserts the record, or
      replaces the row that has its id.\<close>
  "store_message d m =
     (case message_fetch_one d (msg_id m) of
        None \<Rightarrow> d\<lparr>message_table := message_table d @ [m]\<rparr>
      | Some _ \<Rightarrow>
          d\<lparr>message_table := map (\<lambda>r. if msg_id r = msg_id m then m else r) (message_table d)\<rparr>)"

definition save_message :: "env \<Rightarrow> db \<Rightarrow> message \<Rightarrow> (error + message) \<times> db" where
  \<comment> \<open>Modelled from the spec: the host record framework (not part of this repository's
      sources) saves a message by running the before-save hook on the record and the
      stored original, persisting the hook's result, and running the after-save hook; a
      save the before-save hook rejects changes nothing.\<close>
  "save_message e d record =
     (let original_record = message_fetch_one d (msg_id record) in
      case handle_message_before_save e d record original_record of
        Inl err \<Rightarrow> (Inl err, d)
      | Inr (m, d1) \<Rightarrow>
          (Inr m, handle_message_after_save e (store_message d1 m) m original_record))"

definition message_delete :: "env \<Rightarrow> db \<Rightarrow> message \<Rightarrow> (error + message) \<times> db" where
  \<comment> \<open>Modelled from the spec: \<^verbatim>\<open>Message.delete\<close> (chat/message.py is missing) sets
      \<^verbatim>\<open>deleted = true\<close> on the loaded message and persists it by a save.\<close>
  "message_delete e d m =
     (let m' = m\<lparr>deleted := True\<rparr> in
      case save_message e d m' of
        (Inl err, d1) \<Rightarrow> (Inl err, d1)
      | (Inr _, d1) \<Rightarrow> (Inr m', d1))"

section \<open>Deleting a message\<close>

text \<open>
  \<^verbatim>\<open>SELECT _id FROM message WHERE deleted = false AND seq < %(seq)s ORDER BY seq DESC LIMIT 1\<close>:
  \<open>top_by_seq\<close> is the \<^verbatim>\<open>ORDER BY seq DESC LIMIT 1\<close> over the rows the \<^verbatim>\<open>WHERE\<close> clause
  keeps. The query names no conversation. Among rows of equal \<open>seq\<close>, where SQL leaves
  the choice open, the first in table order is taken.
\<close>

fun top_by_seq :: "message list \<Rightarrow> message option" where
  "top_by_seq [] = None"
| "top_by_seq (m # ms) =
     (case top_by_seq ms of
        None \<Rightarrow> Some m
      | Some b \<Rightarrow> if seq m < seq b then Some b else Some m)"

definition get_new_last_message_id :: "db \<Rightarrow> message \<Rightarrow> key option" where
  "get_new_last_message_id conn message =
     (case top_by_seq (filter (\<lambda>r. \<not> deleted r \<and> seq r < seq message) (message_table conn)) of
        None \<Rightarrow> None
      | Some row \<Rightarrow> Some (msg_id row))"

text \<open>
  \<^verbatim>\<open>_update_conversation_last_message\<close>. \<^verbatim>\<open>conversation['last_message_ref'].recordID.key\<close>
  is the key the conversation's \<^verbatim>\<open>last_message\<close> holds; Python raises when the
  conversation or that reference is \<^verbatim>\<open>None\<close>, and when \<^verbatim>\<open>'message/' + new_last_message_id\<close>
  is evaluated with \<^verbatim>\<open>new_last_message_id = None\<close>.
\<close>

definition update_conversation_last_message ::
  "db \<Rightarrow> conversation option \<Rightarrow> message \<Rightarrow> key option \<Rightarrow> error + db" where
  "update_conversation_last_message conn conversation last_msg new_last_message_id =
     (case conversation of
        None \<Rightarrow> Inl TypeError
      | Some c \<Rightarrow>
          (case last_message c of
             None \<Rightarrow> Inl AttributeError
           | Some last_message_ref_key \<Rightarrow>
               if msg_id last_msg = last_message_ref_key then
                 (case new_last_message_id of
                    None \<Rightarrow> Inl TypeError
                  | Some n \<Rightarrow>
                      Inr (conn\<lparr>conversation_table :=
                              map (\<lambda>r. if conv_id r = conversation_id last_msg
                                        then r\<lparr>last_message := Some (''message/'' @ n)\<rparr> else r)
                                (conversation_table conn)\<rparr>))
               else Inr conn))"

text \<open>
  \<^verbatim>\<open>_update_user_conversation_last_read_message\<close>: one \<^verbatim>\<open>UPDATE\<close> over every row whose
  \<^verbatim>\<open>last_read_message\<close> is the deleted message's key (\<^verbatim>\<open>last_message.key\<close>, read as the
  key of the message's id); the new value is \<^verbatim>\<open>new_last_message_id\<close> as it is, \<^verbatim>\<open>None\<close>
  included.
\<close>

definition update_user_conversation_last_read_message ::
  "db \<Rightarrow> message \<Rightarrow> key option \<Rightarrow> db" where
  "update_user_conversation_last_read_message conn last_msg new_last_message_id =
     conn\<lparr>user_conversation_table :=
            map (\<lambda>u. if last_read_message u = Some (msg_id last_msg)
                      then u\<lparr>last_read_message := new_last_message_id\<rparr> else u)
              (user_conversation_table conn)\<rparr>"

text \<open>
  The body of \<^verbatim>\<open>with db.conn() as conn:\<close> in \<^verbatim>\<open>delete_message\<close>: the three steps in
  sequence; an exception leaves the block.
\<close>

definition delete_message_transaction ::
  "db \<Rightarrow> conversation option \<Rightarrow> message \<Rightarrow> error + db" where
  "delete_message_transaction conn conversation message =
     (let new_last_message_id = get_new_last_message_id conn message in
      case update_conversation_last_message conn conversation message new_last_message_id of
        Inl err \<Rightarrow> Inl err
      | Inr conn1 \<Rightarrow>
          Inr (update_user_conversation_last_read_message conn1 message new_last_message_id))"

text \<open>
  \<^verbatim>\<open>delete_message(message_id)\<close>. \<^verbatim>\<open>message.delete()\<close> runs before the connection block
  is entered; a block that raises is rolled back to the store as it was on entry.
\<close>

definition delete_message :: "env \<Rightarrow> db \<Rightarrow> key \<Rightarrow> (error + message) \<times> db" where
  "delete_message e d message_id =
     (case message_fetch_one d message_id of
        None \<Rightarrow> (Inl MessageNotFoundException, d)
      | Some fetched \<Rightarrow>
          (case message_delete e d fetched of
             (Inl err, d1) \<Rightarrow> (Inl err, d1)
           | (Inr message, d1) \<Rightarrow>
               (let conversation = conversation_fetch_one d1 (conversation_id message) in
                case delete_message_transaction d1 conversation message of
                  Inl err \<Rightarrow> (Inl err, d1)
                | Inr d2 \<Rightarrow> (Inr message, d2))))"

section \<open>Example stores\<close>

text \<open>
  Two actors and three stores on which the general theorems below are instantiated.
  \<open>alice\<close> takes part in the conversations \<open>A\<close> and \<open>B\<close>; \<open>mallory\<close> in none.
\<close>

definition alice :: env where
  "alice = \<lparr>current_user_id = ''alice'', utcnow = 7,
            get_message_acl = (\<lambda>_. [''alice'', ''bob''])\<rparr>"

definition mallory :: env where
  "mallory = \<lparr>current_user_id = ''mallory'', utcnow = 9, get_message_acl = (\<lambda>_. [])\<rparr>"

definition stored_message :: "key \<Rightarrow> key \<Rightarrow> int \<Rightarrow> string \<Rightarrow> message" where
  "stored_message k cid s txt =
     \<lparr>msg_id = k, conversation_id = cid, seq = s, body = txt, deleted = False, revision = 1,
      edited_at = Some 3, edited_by = Some ''bob'', message_status = Some ''delivered'',
      acl = [''alice'', ''bob'']\<rparr>"

definition participant :: "key \<Rightarrow> key \<Rightarrow> int \<Rightarrow> key option \<Rightarrow> user_conversation" where
  "participant u cid n r =
     \<lparr>uc_user = u, uc_conversation = cid, unread_count = n, last_read_message = r,
      uc_updated_at = 3\<rparr>"

text \<open>
  Conversation \<open>B\<close> received its only message first (\<open>seq = 1\<close>), conversation \<open>A\<close> its
  only message after it (\<open>seq = 2\<close>).
\<close>

definition chat_two_conversations :: db where
  "chat_two_conversations =
     \<lparr>message_table =
        [stored_message ''b1'' ''B'' 1 ''first'', stored_message ''a1'' ''A'' 2 ''second''],
      conversation_table = [\<lparr>conv_id = ''A'', last_message = Some ''a1''\<rparr>,
                            \<lparr>conv_id = ''B'', last_message = Some ''b1''\<rparr>],
      user_conversation_table =
        [participant ''alice'' ''A'' 0 (Some ''a1''), participant ''bob'' ''A'' 1 (Some ''a1''),
         participant ''alice'' ''B'' 0 (Some ''b1''), participant ''carol'' ''B'' 1 None],
      message_history_table = []\<rparr>"

text \<open>One conversation with two messages, the second being its last message.\<close>

definition chat_one_conversation :: db where
  "chat_one_conversation =
     \<lparr>message_table =
        [stored_message ''a1'' ''A'' 1 ''first'', stored_message ''a2'' ''A'' 2 ''second''],
      conversation_table = [\<lparr>conv_id = ''A'', last_message = Some ''a2''\<rparr>],
      user_conversation_table =
        [participant ''alice'' ''A'' 0 (Some ''a2''), participant ''bob'' ''A'' 1 (Some ''a1'')],
      message_history_table = []\<rparr>"

text \<open>The same conversation after \<open>alice\<close> has deleted its last message.\<close>

definition chat_after_delete :: db where
  "chat_after_delete = snd (delete_message alice chat_one_conversation ''a2'')"

lemmas ex_defs = alice_def mallory_def stored_message_def participant_def
  chat_two_conversations_def chat_one_conversation_def chat_after_delete_def

lemmas prog_defs = delete_message_def message_delete_def save_message_def
  handle_message_before_save_def handle_message_after_save_def store_message_def
  message_fetch_one_def conversation_fetch_one_def user_conversation_fetch_one_def
  message_history_save_def delete_message_transaction_def get_new_last_message_id_def
  update_conversation_last_message_def update_user_conversation_last_read_message_def Let_def

section \<open>Lookups and the store\<close>

lemma find_replace_hit:
  "find P xs = Some y \<Longrightarrow> P m \<Longrightarrow> find P (map (\<lambda>r. if P r then m else r) xs) = Some m"
  by (induction xs) (auto split: if_splits)

lemma find_append_miss:
  "find P xs = None \<Longrightarrow> find P (xs @ [m]) = (if P m then Some m else None)"
  by (induction xs) (auto split: if_splits)

lemma find_append_other:
  "\<not> P m \<Longrightarrow> find P (xs @ [m]) = find P xs"
  by (induction xs) auto

lemma find_replace_other:
  "\<not> P m \<Longrightarrow> (\<And>r. Q r \<Longrightarrow> \<not> P r) \<Longrightarrow> find P (map (\<lambda>r. if Q r then m else r) xs) = find P xs"
  by (induction xs) auto

lemma find_Some_holds: "find P xs = Some y \<Longrightarrow> P y"
  by (induction xs) (auto split: if_splits)

lemma message_fetch_one_id: "message_fetch_one d k = Some m \<Longrightarrow> msg_id m = k"
  unfolding message_fetch_one_def by (drule find_Some_holds) simp

lemma fetch_store_same: "message_fetch_one (store_message d m) (msg_id m) = Some m"
proof (cases "message_fetch_one d (msg_id m)")
  case None
  then show ?thesis
    by (simp add: store_message_def message_fetch_one_def find_append_miss)
next
  case (Some y)
  then have "find (\<lambda>r. msg_id r = msg_id m) (message_table d) = Some y"
    by (simp add: message_fetch_one_def)
  from find_replace_hit [OF this, of m] Some show ?thesis
    by (simp add: store_message_def message_fetch_one_def)
qed

lemma fetch_store_other:
  "k \<noteq> msg_id m \<Longrightarrow> message_fetch_one (store_message d m) k = message_fetch_one d k"
  by (cases "message_fetch_one d (msg_id m)")
     (auto simp: store_message_def message_fetch_one_def find_append_other
           intro!: find_replace_other)

lemma store_message_frame:
  "conversation_table (store_message d m) = conversation_table d"
  "user_conversation_table (store_message d m) = user_conversation_table d"
  "message_history_table (store_message d m) = message_history_table d"
  by (simp_all add: store_message_def split: option.splits)

lemma after_save_frame:
  "message_table (handle_message_after_save e d m orig) = message_table d"
  "message_history_table (handle_message_after_save e d m orig) = message_history_table d"
  by (simp_all add: handle_message_after_save_def)

lemma after_save_update: "handle_message_after_save e d m (Some orig) = d"
  by (simp add: handle_message_after_save_def)

lemma fetch_after_save:
  "message_fetch_one (handle_message_after_save e d m orig) k = message_fetch_one d k"
  by (simp add: message_fetch_one_def after_save_frame)

lemma before_save_Inr:
  assumes "handle_message_before_save e d r orig = Inr (m, d1)"
  shows "msg_id m = msg_id r" and "conversation_id m = conversation_id r"
    and "seq m = seq r" and "body m = body r"
    and "message_table d1 = message_table d"
    and "conversation_table d1 = conversation_table d"
    and "user_conversation_table d1 = user_conversation_table d"
    and "user_conversation_fetch_one e d (conversation_id r) \<noteq> None"
    and "orig = None \<Longrightarrow> message_history_table d1 = message_history_table d"
    and "orig = None \<Longrightarrow> revision m = 1 \<and> \<not> deleted m"
    and "\<And>x. orig = Some x \<Longrightarrow> message_history_table d1 = message_history_table d @ [x]"
    and "\<And>x. orig = Some x \<Longrightarrow> revision m = revision r \<and> deleted m = deleted r \<and> \<not> deleted x"
  using assms
  by (auto simp: handle_message_before_save_def message_history_save_def Let_def
           split: if_splits option.splits)

lemma save_message_Inl:
  "save_message e d r = (Inl err, d') \<Longrightarrow> d' = d"
  by (auto simp: save_message_def Let_def split: sum.splits)

lemma save_message_Inr:
  assumes "save_message e d r = (Inr m, d')"
  obtains d1 where
    "handle_message_before_save e d r (message_fetch_one d (msg_id r)) = Inr (m, d1)"
    "d' = handle_message_after_save e (store_message d1 m) m (message_fetch_one d (msg_id r))"
  using assms by (auto simp: save_message_def Let_def split: sum.splits)

lemma top_by_seq_None: "top_by_seq xs = None \<longleftrightarrow> xs = []"
  by (induction xs) (auto split: option.splits)

lemma top_by_seq_Some:
  "top_by_seq xs = Some b \<Longrightarrow> b \<in> set xs \<and> (\<forall>x\<in>set xs. seq x \<le> seq b)"
  by (induction xs arbitrary: b) (fastforce simp: top_by_seq_None split: option.splits if_splits)+

section \<open>Deleting: what each step touches\<close>

lemma transaction_frame:
  "delete_message_transaction conn c m = Inr conn' \<Longrightarrow>
     message_table conn' = message_table conn \<and>
     message_history_table conn' = message_history_table conn"
  by (auto simp: delete_message_transaction_def update_conversation_last_message_def
      update_user_conversation_last_read_message_def Let_def split: sum.splits option.splits if_splits)

lemma message_delete_Inl: "message_delete e d m = (Inl err, d') \<Longrightarrow> d' = d"
  by (auto simp: message_delete_def Let_def split: prod.splits sum.splits dest: save_message_Inl)

lemma message_delete_Inr:
  assumes "message_delete e d m = (Inr r, d')"
  shows "r = m\<lparr>deleted := True\<rparr>"
    and "\<exists>s. save_message e d (m\<lparr>deleted := True\<rparr>) = (Inr s, d')"
  using assms by (auto simp: message_delete_def Let_def split: prod.splits sum.splits)

lemma save_existing_frame:
  assumes "save_message e d r = (Inr s, d')" and "message_fetch_one d (msg_id r) = Some orig"
  shows "conversation_table d' = conversation_table d"
    and "user_conversation_table d' = user_conversation_table d"
    and "message_history_table d' = message_history_table d @ [orig]"
    and "\<not> deleted orig"
proof -
  from assms(1) obtain d1 where
    b: "handle_message_before_save e d r (message_fetch_one d (msg_id r)) = Inr (s, d1)" and
    d': "d' = handle_message_after_save e (store_message d1 s) s (message_fetch_one d (msg_id r))"
    by (rule save_message_Inr)
  from d' assms(2) have eq: "d' = store_message d1 s" by (simp add: after_save_update)
  from before_save_Inr(6) [OF b] eq show "conversation_table d' = conversation_table d"
    by (simp add: store_message_frame)
  from before_save_Inr(7) [OF b] eq show "user_conversation_table d' = user_conversation_table d"
    by (simp add: store_message_frame)
  from before_save_Inr(11) [OF b assms(2)] eq
  show "message_history_table d' = message_history_table d @ [orig]"
    by (simp add: store_message_frame)
  from before_save_Inr(12) [OF b assms(2)] show "\<not> deleted orig" by simp
qed

lemma delete_message_Inr:
  assumes "delete_message e d k = (Inr r, d')"
  obtains fetched s d1 where
    "message_fetch_one d k = Some fetched" "r = fetched\<lparr>deleted := True\<rparr>"
    "save_message e d r = (Inr s, d1)"
    "delete_message_transaction d1 (conversation_fetch_one d1 (conversation_id r)) r = Inr d'"
proof (cases "message_fetch_one d k")
  case None
  with assms show ?thesis by (simp add: delete_message_def)
next
  case (Some fetched)
  with assms obtain d1 where
    md: "message_delete e d fetched = (Inr r, d1)" and
    tr: "delete_message_transaction d1 (conversation_fetch_one d1 (conversation_id r)) r = Inr d'"
    by (auto simp: delete_message_def Let_def split: prod.splits sum.splits)
  from message_delete_Inr [OF md] obtain s where
    "r = fetched\<lparr>deleted := True\<rparr>" "save_message e d r = (Inr s, d1)" by auto
  with Some tr that show ?thesis by blast
qed

lemma save_rejects_deleted:
  assumes "message_fetch_one d (msg_id r) = Some m" and "deleted m"
  shows "save_message e d r = (Inl AlreadyDeletedException, d)"
  using assms by (simp add: save_message_def handle_message_before_save_def)

lemma save_keeps_other_rows:
  assumes "k \<noteq> msg_id r"
  shows "message_fetch_one (snd (save_message e d r)) k = message_fetch_one d k"
proof (cases "save_message e d r")
  case (Pair res d')
  show ?thesis
  proof (cases res)
    case (Inl err)
    with Pair have "d' = d" by (auto dest: save_message_Inl)
    with Pair show ?thesis by simp
  next
    case (Inr m)
    with Pair obtain d1 where
      b: "handle_message_before_save e d r (message_fetch_one d (msg_id r)) = Inr (m, d1)" and
      d': "d' = handle_message_after_save e (store_message d1 m) m (message_fetch_one d (msg_id r))"
      by (auto elim: save_message_Inr)
    from before_save_Inr(1) [OF b] assms have "k \<noteq> msg_id m" by simp
    then have "message_fetch_one d' k = message_fetch_one d1 k"
      unfolding d' by (simp add: fetch_after_save fetch_store_other)
    also from before_save_Inr(5) [OF b] have "\<dots> = message_fetch_one d k"
      by (simp add: message_fetch_one_def)
    finally show ?thesis using Pair by simp
  qed
qed

lemma delete_rejects_deleted:
  assumes "message_fetch_one d k = Some m" and "deleted m"
  shows "delete_message e d k = (Inl AlreadyDeletedException, d)"
proof -
  from assms(1) have "msg_id m = k" by (rule message_fetch_one_id)
  with assms have "save_message e d (m\<lparr>deleted := True\<rparr>) = (Inl AlreadyDeletedException, d)"
    by (intro save_rejects_deleted [where m = m]) simp_all
  with assms(1) show ?thesis by (simp add: delete_message_def message_delete_def)
qed

lemma delete_keeps_other_rows:
  assumes "k \<noteq> k'"
  shows "message_fetch_one (snd (delete_message e d k')) k = message_fetch_one d k"
proof (cases "delete_message e d k'")
  case (Pair res d')
  show ?thesis
  proof (cases res)
    case (Inl err)
    show ?thesis
    proof (cases "message_fetch_one d k'")
      case None
      with Pair show ?thesis by (simp add: delete_message_def)
    next
      case (Some fetched)
      then have fid: "msg_id fetched = k'" by (rule message_fetch_one_id)
      obtain res1 d1 where md: "message_delete e d fetched = (res1, d1)" by force
      with Pair Inl Some have "d' = d1"
        by (auto simp: delete_message_def Let_def split: sum.splits)
      moreover from md have "d1 = snd (save_message e d (fetched\<lparr>deleted := True\<rparr>))"
        by (auto simp: message_delete_def Let_def split: prod.splits sum.splits)
      ultimately show ?thesis using Pair save_keeps_other_rows [of k "fetched\<lparr>deleted := True\<rparr>" e d] assms fid
        by simp
    qed
  next
    case (Inr r)
    with Pair have "delete_message e d k' = (Inr r, d')" by simp
    then obtain fetched s d1 where
      f: "message_fetch_one d k' = Some fetched" and r: "r = fetched\<lparr>deleted := True\<rparr>" and
      sv: "save_message e d r = (Inr s, d1)" and
      tr: "delete_message_transaction d1 (conversation_fetch_one d1 (conversation_id r)) r = Inr d'"
      by (rule delete_message_Inr)
    from f have "msg_id fetched = k'" by (rule message_fetch_one_id)
    with r assms have "k \<noteq> msg_id r" by simp
    from save_keeps_other_rows [OF this, of e d] sv
    have "message_fetch_one d1 k = message_fetch_one d k" by simp
    moreover from transaction_frame [OF tr] have "message_fetch_one d' k = message_fetch_one d1 k"
      by (simp add: message_fetch_one_def)
    ultimately show ?thesis using Pair by simp
  qed
qed

lemma get_new_last_message_id_cong:
  "message_table c' = message_table c \<Longrightarrow>
     get_new_last_message_id c' m = get_new_last_message_id c m"
  by (simp add: get_new_last_message_id_def)

lemma get_new_last_message_id_None:
  "get_new_last_message_id c m = None \<longleftrightarrow>
     (\<forall>x\<in>set (message_table c). deleted x \<or> seq m \<le> seq x)"
proof -
  let ?rows = "filter (\<lambda>r. \<not> deleted r \<and> seq r < seq m) (message_table c)"
  have "get_new_last_message_id c m = None \<longleftrightarrow> top_by_seq ?rows = None"
    by (simp add: get_new_last_message_id_def split: option.splits)
  also have "\<dots> \<longleftrightarrow> ?rows = []" by (rule top_by_seq_None)
  also have "\<dots> \<longleftrightarrow> (\<forall>x\<in>set (message_table c). deleted x \<or> seq m \<le> seq x)"
    by (auto simp: filter_empty_conv)
  finally show ?thesis .
qed

lemma get_new_last_message_id_Some:
  assumes "get_new_last_message_id c m = Some n"
  shows "\<exists>row\<in>set (message_table c). msg_id row = n \<and> \<not> deleted row \<and> seq row < seq m \<and>
           (\<forall>x\<in>set (message_table c). \<not> deleted x \<and> seq x < seq m \<longrightarrow> seq x \<le> seq row)"
proof -
  from assms obtain row where
    t: "top_by_seq (filter (\<lambda>r. \<not> deleted r \<and> seq r < seq m) (message_table c)) = Some row"
    and n: "n = msg_id row"
    by (auto simp: get_new_last_message_id_def split: option.splits)
  from top_by_seq_Some [OF t] n show ?thesis by auto
qed

lemma transaction_user_conversations:
  assumes "delete_message_transaction conn c m = Inr conn'"
  shows "user_conversation_table conn' =
     map (\<lambda>u. if last_read_message u = Some (msg_id m)
               then u\<lparr>last_read_message := get_new_last_message_id conn m\<rparr> else u)
       (user_conversation_table conn)"
  using assms
  by (auto simp: delete_message_transaction_def update_conversation_last_message_def
      update_user_conversation_last_read_message_def Let_def
      split: sum.splits option.splits if_splits)

lemma delete_frame_not_last:
  assumes "delete_message e d k = (Inr r, d')"
    and "conversation_fetch_one d (conversation_id r) = Some c"
    and "last_message c \<noteq> Some k"
  shows "conversation_table d' = conversation_table d"
proof -
  from assms(1) obtain fetched s d1 where
    f: "message_fetch_one d k = Some fetched" and r: "r = fetched\<lparr>deleted := True\<rparr>" and
    sv: "save_message e d r = (Inr s, d1)" and
    tr: "delete_message_transaction d1 (conversation_fetch_one d1 (conversation_id r)) r = Inr d'"
    by (rule delete_message_Inr)
  from f have "msg_id fetched = k" by (rule message_fetch_one_id)
  with r have rid: "msg_id r = k" by simp
  with f have orig: "message_fetch_one d (msg_id r) = Some fetched" by simp
  have ct: "conversation_table d1 = conversation_table d"
    by (rule save_existing_frame(1) [OF sv orig])
  then have "conversation_fetch_one d1 (conversation_id r) = Some c"
    using assms(2) by (simp add: conversation_fetch_one_def)
  with tr assms(3) rid have "conversation_table d' = conversation_table d1"
    by (auto simp: delete_message_transaction_def update_conversation_last_message_def
        update_user_conversation_last_read_message_def Let_def
        split: sum.splits option.splits if_splits)
  with ct show ?thesis by simp
qed

section \<open>Saving: history and counters\<close>

lemma save_history:
  assumes "save_message e d r = (Inr m, d')"
  shows "message_fetch_one d' (msg_id r) = Some m"
    and "message_fetch_one d (msg_id r) = None \<Longrightarrow> message_history_table d' = message_history_table d"
    and "\<And>orig. message_fetch_one d (msg_id r) = Some orig \<Longrightarrow>
           message_history_table d' = message_history_table d @ [orig]"
proof -
  from assms obtain d1 where
    b: "handle_message_before_save e d r (message_fetch_one d (msg_id r)) = Inr (m, d1)" and
    d': "d' = handle_message_after_save e (store_message d1 m) m (message_fetch_one d (msg_id r))"
    by (rule save_message_Inr)
  note bs = before_save_Inr [OF b]
  have "message_fetch_one d' (msg_id m) = Some m"
    unfolding d' by (simp add: fetch_after_save fetch_store_same)
  with bs(1) show "message_fetch_one d' (msg_id r) = Some m" by simp
  have h: "message_history_table d' = message_history_table d1"
    unfolding d' by (simp add: after_save_frame store_message_frame)
  show "message_history_table d' = message_history_table d"
    if "message_fetch_one d (msg_id r) = None"
    using bs(9) [OF that] h by simp
  show "message_history_table d' = message_history_table d @ [orig]"
    if "message_fetch_one d (msg_id r) = Some orig" for orig
    using bs(11) [OF that] h by simp
qed

lemma sum_unread_bump:
  "sum_list (map unread_count
       (map (\<lambda>u. if P u then u\<lparr>unread_count := unread_count u + 1, uc_updated_at := t\<rparr> else u) xs))
     = sum_list (map unread_count xs) + int (length (filter P xs))"
  by (induction xs) auto

section \<open>The replacement of a deleted message\<close>

text \<open>
  Claim C1. The replacement computed on a delete should be the newest non-deleted message
  of the \<^emph>\<open>same\<close> conversation below the deleted message's sequence number. The query of
  \<open>get_new_last_message_id\<close> has no conversation filter: deleting \<open>a1\<close>, the only
  message of conversation \<open>A\<close>, selects \<open>b1\<close> of conversation \<open>B\<close>, and both the read
  pointers and the \<^verbatim>\<open>last_message\<close> of conversation \<open>A\<close> are moved to it.
\<close>

theorem replacement_from_another_conversation:
  "get_new_last_message_id chat_two_conversations (stored_message ''a1'' ''A'' 2 ''second'') = Some ''b1''
   \<and> map_option conversation_id (message_fetch_one chat_two_conversations ''a1'') = Some ''A''
   \<and> map_option conversation_id (message_fetch_one chat_two_conversations ''b1'') = Some ''B''
   \<and> map last_read_message
         (user_conversation_table (snd (delete_message alice chat_two_conversations ''a1'')))
       = [Some ''b1'', Some ''b1'', Some ''b1'', None]
   \<and> map last_message (conversation_table (snd (delete_message alice chat_two_conversations ''a1'')))
       = [Some ''message/b1'', Some ''b1'']"
  by (simp add: ex_defs prog_defs)

section \<open>Revisions\<close>

text \<open>
  Claim C2, as stated, at a concrete edit: \<open>a1\<close> is stored with revision 1, the edit
  resubmits it with a new body and succeeds, and the stored revision is still 1, not 2.
\<close>

theorem edit_keeps_revision:
  "map_option revision (message_fetch_one chat_one_conversation ''a1'') = Some 1
   \<and> map_sum id body (fst (save_message alice chat_one_conversation
                            (stored_message ''a1'' ''A'' 1 ''edited''))) = Inr ''edited''
   \<and> map_option revision
        (message_fetch_one (snd (save_message alice chat_one_conversation
                                  (stored_message ''a1'' ''A'' 1 ''edited''))) ''a1'') = Some 1
   \<and> map_option revision
        (message_fetch_one (snd (save_message alice chat_one_conversation
                                  (stored_message ''a1'' ''A'' 1 ''edited''))) ''a1'') \<noteq> Some (1 + 1)"
  by (simp add: ex_defs prog_defs)

text \<open>
  Claim C2, amended. A successful save stores the record the hook returns. On creation
  its revision is 1; on an edit it is the revision the submitted record carries: the
  hook neither increments nor decrements it.
\<close>

theorem revision_after_save:
  assumes "save_message e d r = (Inr m, d')"
  shows "message_fetch_one d' (msg_id r) = Some m
       \<and> (message_fetch_one d (msg_id r) = None \<longrightarrow> revision m = 1)
       \<and> (message_fetch_one d (msg_id r) \<noteq> None \<longrightarrow> revision m = revision r)"
proof -
  from assms obtain d1 where
    b: "handle_message_before_save e d r (message_fetch_one d (msg_id r)) = Inr (m, d1)" and
    d': "d' = handle_message_after_save e (store_message d1 m) m (message_fetch_one d (msg_id r))"
    by (rule save_message_Inr)
  have "message_fetch_one d' (msg_id m) = Some m"
    unfolding d' by (simp add: fetch_after_save fetch_store_same)
  with before_save_Inr(1) [OF b] have "message_fetch_one d' (msg_id r) = Some m" by simp
  moreover from before_save_Inr(10) [OF b]
  have "message_fetch_one d (msg_id r) = None \<longrightarrow> revision m = 1" by simp
  moreover from before_save_Inr(12) [OF b]
  have "message_fetch_one d (msg_id r) \<noteq> None \<longrightarrow> revision m = revision r" by auto
  ultimately show ?thesis by simp
qed

theorem revision_after_save_witness:
  "map_option revision (message_fetch_one (snd (save_message alice chat_one_conversation
        (stored_message ''a3'' ''A'' 3 ''third''))) ''a3'') = Some 1
   \<and> map_option revision (message_fetch_one (snd (save_message alice chat_one_conversation
        ((stored_message ''a1'' ''A'' 1 ''edited'')\<lparr>revision := 5\<rparr>))) ''a1'') = Some 5"
proof -
  let ?r3 = "stored_message ''a3'' ''A'' 3 ''third''"
  let ?r1 = "(stored_message ''a1'' ''A'' 1 ''edited'')\<lparr>revision := 5\<rparr>"
  obtain m3 d3 where s3: "save_message alice chat_one_conversation ?r3 = (Inr m3, d3)"
    by (simp add: ex_defs prog_defs)
  obtain m1 d1 where s1: "save_message alice chat_one_conversation ?r1 = (Inr m1, d1)"
    by (simp add: ex_defs prog_defs)
  have n3: "message_fetch_one chat_one_conversation (msg_id ?r3) = None"
    by (simp add: ex_defs prog_defs)
  have n1: "message_fetch_one chat_one_conversation (msg_id ?r1) \<noteq> None"
    by (simp add: ex_defs prog_defs)
  from revision_after_save [OF s3] n3 s3 revision_after_save [OF s1] n1 s1
  show ?thesis by (simp add: stored_message_def)
qed

section \<open>Deleting the only message\<close>

text \<open>
  Claim C3. Deleting a conversation's last message when no non-deleted message with a
  smaller sequence number remains should succeed and set \<^verbatim>\<open>last_message\<close> to null. In
  \<open>chat_two_conversations\<close> the message \<open>b1\<close> is such a message: the replacement is
  \<^verbatim>\<open>None\<close>, \<^verbatim>\<open>'message/' + None\<close> raises, and the conversation still points at \<open>b1\<close>.
\<close>

theorem delete_only_message_raises:
  "fst (delete_message alice chat_two_conversations ''b1'') = Inl TypeError
   \<and> get_new_last_message_id chat_two_conversations (stored_message ''b1'' ''B'' 1 ''first'') = None
   \<and> map_option last_message (conversation_fetch_one chat_two_conversations ''B'') = Some (Some ''b1'')
   \<and> map_option last_message
        (conversation_fetch_one (snd (delete_message alice chat_two_conversations ''b1'')) ''B'')
       = Some (Some ''b1'')"
  by (simp add: ex_defs prog_defs)

section \<open>Failed deletes\<close>

text \<open>
  Claim C4, as stated, at a concrete delete: the delete of \<open>b1\<close> fails, yet the message's
  \<open>deleted\<close> flag, false before, is true afterwards. The soft delete is saved before
  the connection block is entered and is not undone when the block raises.
\<close>

theorem failed_delete_keeps_soft_delete:
  "fst (delete_message alice chat_two_conversations ''b1'') = Inl TypeError
   \<and> map_option deleted (message_fetch_one chat_two_conversations ''b1'') = Some False
   \<and> map_option deleted
        (message_fetch_one (snd (delete_message alice chat_two_conversations ''b1'')) ''b1'')
       = Some True"
  by (simp add: ex_defs prog_defs)

text \<open>
  Claim C4, amended. A delete that fails leaves every Conversation row and every
  UserConversation row unchanged, so the two pointer updates are all or nothing; and a
  delete that fails because the message is missing, already deleted, or the actor is not
  in the conversation changes nothing at all.
\<close>

theorem failed_delete_keeps_pointers:
  assumes "delete_message e d k = (Inl err, d')"
  shows "conversation_table d' = conversation_table d
       \<and> user_conversation_table d' = user_conversation_table d
       \<and> (err = MessageNotFoundException \<or> err = AlreadyDeletedException
            \<or> err = NotInConversationException \<longrightarrow> d' = d)"
proof (cases "message_fetch_one d k")
  case None
  with assms show ?thesis by (simp add: delete_message_def)
next
  case (Some fetched)
  show ?thesis
  proof (cases "message_delete e d fetched")
    case (Pair res d1)
    show ?thesis
    proof (cases res)
      case (Inl err1)
      with Pair Some assms have "err = err1" "d' = d1" by (simp_all add: delete_message_def)
      moreover from Pair Inl have "d1 = d" by (auto dest: message_delete_Inl)
      ultimately show ?thesis by simp
    next
      case (Inr message)
      with Pair have md: "message_delete e d fetched = (Inr message, d1)" by simp
      from message_delete_Inr(2) [OF md] obtain s where
        sv: "save_message e d (fetched\<lparr>deleted := True\<rparr>) = (Inr s, d1)" by blast
      from Some have fid: "msg_id fetched = k" by (rule message_fetch_one_id)
      with Some have "message_fetch_one d (msg_id (fetched\<lparr>deleted := True\<rparr>)) = Some fetched"
        by simp
      note fr = save_existing_frame [OF sv this]
      from assms Some md have
        "d' = d1" and
        "delete_message_transaction d1 (conversation_fetch_one d1 (conversation_id message)) message
           = Inl err"
        by (auto simp: delete_message_def Let_def split: sum.splits)
      then have "err = TypeError \<or> err = AttributeError"
        by (auto simp: delete_message_transaction_def update_conversation_last_message_def Let_def
            split: sum.splits option.splits if_splits)
      with \<open>d' = d1\<close> fr show ?thesis by auto
    qed
  qed
qed

theorem failed_delete_keeps_pointers_witness:
  "fst (delete_message alice chat_two_conversations ''b1'') = Inl TypeError
   \<and> conversation_table (snd (delete_message alice chat_two_conversations ''b1''))
       = conversation_table chat_two_conversations
   \<and> user_conversation_table (snd (delete_message alice chat_two_conversations ''b1''))
       = user_conversation_table chat_two_conversations
   \<and> delete_message mallory chat_two_conversations ''b1''
       = (Inl NotInConversationException, chat_two_conversations)"
proof -
  obtain d' where h: "delete_message alice chat_two_conversations ''b1'' = (Inl TypeError, d')"
    by (simp add: ex_defs prog_defs)
  obtain d'' where
    g: "delete_message mallory chat_two_conversations ''b1'' = (Inl NotInConversationException, d'')"
    by (simp add: ex_defs prog_defs)
  from failed_delete_keeps_pointers [OF h] failed_delete_keeps_pointers [OF g] h g
  show ?thesis by simp
qed

section \<open>Deleted messages stay deleted\<close>

text \<open>
  Claim C5. For a stored message \<open>m\<close> with id \<open>k\<close> whose \<open>deleted\<close> flag is true: the
  before-save hook rejects every save whose original it is, a save of a record with its
  id and a second delete both fail with \<^verbatim>\<open>AlreadyDeletedException\<close> and leave the store
  as it was, and after any save and any delete whatsoever the row of \<open>k\<close> is still \<open>m\<close>,
  so the flag never returns to false.
\<close>

theorem deleted_is_final:
  assumes "message_fetch_one d k = Some m" and "deleted m"
  shows "handle_message_before_save e d r (Some m) = Inl AlreadyDeletedException
       \<and> (msg_id r = k \<longrightarrow> save_message e d r = (Inl AlreadyDeletedException, d))
       \<and> delete_message e d k = (Inl AlreadyDeletedException, d)
       \<and> message_fetch_one (snd (save_message e d r)) k = Some m
       \<and> message_fetch_one (snd (delete_message e d k')) k = Some m"
proof -
  have 1: "handle_message_before_save e d r (Some m) = Inl AlreadyDeletedException"
    using assms(2) by (simp add: handle_message_before_save_def)
  have 2: "msg_id r = k \<longrightarrow> save_message e d r = (Inl AlreadyDeletedException, d)"
    using assms by (auto intro: save_rejects_deleted)
  have 3: "delete_message e d k = (Inl AlreadyDeletedException, d)"
    using assms by (rule delete_rejects_deleted)
  have 4: "message_fetch_one (snd (save_message e d r)) k = Some m"
  proof (cases "msg_id r = k")
    case True
    with 2 assms(1) show ?thesis by simp
  next
    case False
    then have "k \<noteq> msg_id r" by simp
    from save_keeps_other_rows [OF this] assms(1) show ?thesis by simp
  qed
  have 5: "message_fetch_one (snd (delete_message e d k')) k = Some m"
  proof (cases "k' = k")
    case True
    with 3 assms(1) show ?thesis by simp
  next
    case False
    then have "k \<noteq> k'" by simp
    from delete_keeps_other_rows [OF this] assms(1) show ?thesis by simp
  qed
  from 1 2 3 4 5 show ?thesis by simp
qed

theorem deleted_is_final_witness:
  "map_option deleted (message_fetch_one chat_after_delete ''a2'') = Some True
   \<and> save_message alice chat_after_delete (stored_message ''a2'' ''A'' 2 ''again'')
       = (Inl AlreadyDeletedException, chat_after_delete)
   \<and> delete_message alice chat_after_delete ''a2'' = (Inl AlreadyDeletedException, chat_after_delete)
   \<and> map_option deleted
        (message_fetch_one (snd (delete_message alice chat_after_delete ''a1'')) ''a2'') = Some True"
proof -
  obtain m where f: "message_fetch_one chat_after_delete ''a2'' = Some m" and del: "deleted m"
    by (simp add: ex_defs prog_defs)
  have i: "msg_id (stored_message ''a2'' ''A'' 2 ''again'') = ''a2''"
    by (simp add: stored_message_def)
  from deleted_is_final [OF f del, of alice "stored_message ''a2'' ''A'' 2 ''again''" "''a1''"] f del i
  show ?thesis by simp
qed

section \<open>Read pointers after a delete\<close>

text \<open>
  Claim C6. After a successful delete of the message with id \<open>k\<close> (returned as \<open>r\<close>,
  stored before as \<open>r\<close> with \<open>deleted = False\<close>), the UserConversation table is the old
  one with exactly the rows whose \<^verbatim>\<open>last_read_message\<close> was \<open>k\<close> repointed to the
  replacement, every other row unchanged. The replacement is null exactly when no
  non-deleted message has a smaller sequence number than \<open>r\<close>, and otherwise the id of a
  non-deleted message with the greatest sequence number below that of \<open>r\<close>.
\<close>

theorem read_pointer_repair:
  assumes "delete_message e d k = (Inr r, d')"
  shows "message_fetch_one d k = Some (r\<lparr>deleted := False\<rparr>)
       \<and> user_conversation_table d' =
           map (\<lambda>u. if last_read_message u = Some k
                     then u\<lparr>last_read_message := get_new_last_message_id d' r\<rparr> else u)
             (user_conversation_table d)
       \<and> (get_new_last_message_id d' r = None \<longrightarrow>
            (\<forall>x\<in>set (message_table d'). deleted x \<or> seq r \<le> seq x))
       \<and> (\<forall>n. get_new_last_message_id d' r = Some n \<longrightarrow>
            (\<exists>row\<in>set (message_table d'). msg_id row = n \<and> \<not> deleted row \<and> seq row < seq r \<and>
               (\<forall>x\<in>set (message_table d'). \<not> deleted x \<and> seq x < seq r \<longrightarrow> seq x \<le> seq row)))"
proof -
  from assms obtain fetched s d1 where
    f: "message_fetch_one d k = Some fetched" and r: "r = fetched\<lparr>deleted := True\<rparr>" and
    sv: "save_message e d r = (Inr s, d1)" and
    tr: "delete_message_transaction d1 (conversation_fetch_one d1 (conversation_id r)) r = Inr d'"
    by (rule delete_message_Inr)
  from f have "msg_id fetched = k" by (rule message_fetch_one_id)
  with r have rid: "msg_id r = k" by simp
  with f have orig: "message_fetch_one d (msg_id r) = Some fetched" by simp
  have "\<not> deleted fetched" by (rule save_existing_frame(4) [OF sv orig])
  then have "fetched\<lparr>deleted := False\<rparr> = fetched" by simp
  with r have "r\<lparr>deleted := False\<rparr> = fetched" by simp
  with f have 0: "message_fetch_one d k = Some (r\<lparr>deleted := False\<rparr>)" by simp
  have "message_table d' = message_table d1" using transaction_frame [OF tr] by simp
  then have new: "get_new_last_message_id d1 r = get_new_last_message_id d' r"
    by (rule get_new_last_message_id_cong [symmetric])
  have uc: "user_conversation_table d1 = user_conversation_table d"
    by (rule save_existing_frame(2) [OF sv orig])
  have 2: "user_conversation_table d' =
           map (\<lambda>u. if last_read_message u = Some k
                     then u\<lparr>last_read_message := get_new_last_message_id d' r\<rparr> else u)
             (user_conversation_table d)"
    unfolding transaction_user_conversations [OF tr] new uc rid ..
  have 3: "get_new_last_message_id d' r = None \<longrightarrow>
            (\<forall>x\<in>set (message_table d'). deleted x \<or> seq r \<le> seq x)"
    unfolding get_new_last_message_id_None by (rule impI)
  have 4: "\<forall>n. get_new_last_message_id d' r = Some n \<longrightarrow>
            (\<exists>row\<in>set (message_table d'). msg_id row = n \<and> \<not> deleted row \<and> seq row < seq r \<and>
               (\<forall>x\<in>set (message_table d'). \<not> deleted x \<and> seq x < seq r \<longrightarrow> seq x \<le> seq row))"
    by (intro allI impI) (rule get_new_last_message_id_Some)
  from 0 2 3 4 show ?thesis by (intro conjI)
qed

theorem read_pointer_repair_witness:
  "map_sum id msg_id (fst (delete_message alice chat_one_conversation ''a2'')) = Inr ''a2''
   \<and> map last_read_message (user_conversation_table chat_one_conversation)
       = [Some ''a2'', Some ''a1'']
   \<and> map last_read_message (user_conversation_table chat_after_delete)
       = [Some ''a1'', Some ''a1'']
   \<and> map unread_count (user_conversation_table chat_after_delete) = [0, 1]"
proof -
  obtain r where h: "delete_message alice chat_one_conversation ''a2'' = (Inr r, chat_after_delete)"
    and r: "msg_id r = ''a2''" "seq r = 2"
    by (simp add: ex_defs prog_defs)
  have n: "get_new_last_message_id chat_after_delete r = Some ''a1''"
    using r by (simp add: ex_defs prog_defs)
  from read_pointer_repair [OF h] h r n show ?thesis
    by (simp add: chat_one_conversation_def participant_def)
qed

section \<open>The conversation's last message after a delete\<close>

text \<open>
  Claim C7. When the deleted message is the conversation's current \<^verbatim>\<open>last_message\<close>, the
  conversation should be repointed to the replacement. In \<open>chat_one_conversation\<close> the
  deleted message \<open>a2\<close> is the last message and the replacement is \<open>a1\<close>: the delete
  succeeds and the read pointers receive the key \<open>a1\<close>, but the conversation receives
  the string \<^verbatim>\<open>message/a1\<close>, which is the key of no message, whereas a creation stores the
  bare key of the new message in the same column. In \<open>chat_two_conversations\<close> the
  deleted message \<open>b1\<close> is the last message of its conversation and the replacement is
  null: the conversation is not repointed at all and still references \<open>b1\<close>. (When the
  deleted message is not the last message, the conversation table is left as it was:
  \<open>delete_frame_not_last\<close>.)
\<close>

theorem delete_stores_prefixed_key:
  "map last_message (conversation_table chat_one_conversation) = [Some ''a2'']
   \<and> map_sum id msg_id (fst (delete_message alice chat_one_conversation ''a2'')) = Inr ''a2''
   \<and> get_new_last_message_id chat_after_delete (stored_message ''a2'' ''A'' 2 ''second'')
       = Some ''a1''
   \<and> map last_message (conversation_table chat_after_delete) = [Some ''message/a1'']
   \<and> map last_read_message (user_conversation_table chat_after_delete)
       = [Some ''a1'', Some ''a1'']
   \<and> map last_message (conversation_table (snd (save_message alice chat_one_conversation
         (stored_message ''a3'' ''A'' 3 ''third'')))) = [Some ''a3'']
   \<and> map last_message (conversation_table chat_two_conversations) = [Some ''a1'', Some ''b1'']
   \<and> get_new_last_message_id chat_two_conversations (stored_message ''b1'' ''B'' 1 ''first'')
       = None
   \<and> map last_message
        (conversation_table (snd (delete_message alice chat_two_conversations ''b1'')))
       = [Some ''a1'', Some ''b1'']"
  by (simp add: ex_defs prog_defs)

section \<open>Creating a message\<close>

text \<open>
  Claim C8. A successful creation (no message with the record's id is stored) increments
  the unread counter of exactly the rows of the message's conversation whose user is not
  the author, by one each, and leaves every other UserConversation row as it was; the
  counters' total grows by the number of those rows; the conversation's \<^verbatim>\<open>last_message\<close>
  is set to the new message's key, every other conversation unchanged; and the new
  message is stored.
\<close>

theorem create_bumps_unread_and_sets_last_message:
  assumes "message_fetch_one d (msg_id r) = None"
    and "save_message e d r = (Inr m, d')"
  shows "user_conversation_table d' =
           map (\<lambda>u. if uc_conversation u = conversation_id r \<and> uc_user u \<noteq> current_user_id e
                     then u\<lparr>unread_count := unread_count u + 1, uc_updated_at := utcnow e\<rparr>
                     else u)
             (user_conversation_table d)
       \<and> sum_list (map unread_count (user_conversation_table d')) =
           sum_list (map unread_count (user_conversation_table d))
           + int (length (filter (\<lambda>u. uc_conversation u = conversation_id r
                                        \<and> uc_user u \<noteq> current_user_id e)
                            (user_conversation_table d)))
       \<and> conversation_table d' =
           map (\<lambda>c. if conv_id c = conversation_id r
                     then c\<lparr>last_message := Some (msg_id r)\<rparr> else c)
             (conversation_table d)
       \<and> message_fetch_one d' (msg_id r) = Some m"
proof -
  from assms(2) obtain d1 where
    b: "handle_message_before_save e d r (message_fetch_one d (msg_id r)) = Inr (m, d1)" and
    d': "d' = handle_message_after_save e (store_message d1 m) m (message_fetch_one d (msg_id r))"
    by (rule save_message_Inr)
  note bs = before_save_Inr [OF b]
  have uc: "user_conversation_table d' =
           map (\<lambda>u. if uc_conversation u = conversation_id r \<and> uc_user u \<noteq> current_user_id e
                     then u\<lparr>unread_count := unread_count u + 1, uc_updated_at := utcnow e\<rparr>
                     else u)
             (user_conversation_table d)"
    unfolding d' using assms(1) bs(2) bs(7)
    by (simp add: handle_message_after_save_def store_message_frame)
  have cv: "conversation_table d' =
           map (\<lambda>c. if conv_id c = conversation_id r
                     then c\<lparr>last_message := Some (msg_id r)\<rparr> else c)
             (conversation_table d)"
    unfolding d' using assms(1) bs(1) bs(2) bs(6)
    by (simp add: handle_message_after_save_def store_message_frame)
  have "message_fetch_one d' (msg_id m) = Some m"
    unfolding d' by (simp add: fetch_after_save fetch_store_same)
  with bs(1) have ft: "message_fetch_one d' (msg_id r) = Some m" by simp
  have sm: "sum_list (map unread_count (user_conversation_table d')) =
           sum_list (map unread_count (user_conversation_table d))
           + int (length (filter (\<lambda>u. uc_conversation u = conversation_id r
                                        \<and> uc_user u \<noteq> current_user_id e)
                            (user_conversation_table d)))"
    unfolding uc by (rule sum_unread_bump)
  from uc sm cv ft show ?thesis by (intro conjI)
qed

theorem create_bumps_unread_and_sets_last_message_witness:
  "map_sum id msg_id (fst (save_message alice chat_two_conversations
        (stored_message ''a3'' ''A'' 3 ''third''))) = Inr ''a3''
   \<and> map unread_count (user_conversation_table chat_two_conversations) = [0, 1, 0, 1]
   \<and> map unread_count (user_conversation_table (snd (save_message alice chat_two_conversations
        (stored_message ''a3'' ''A'' 3 ''third'')))) = [0, 2, 0, 1]
   \<and> map last_message (conversation_table (snd (save_message alice chat_two_conversations
        (stored_message ''a3'' ''A'' 3 ''third'')))) = [Some ''a3'', Some ''b1'']"
proof -
  let ?r = "stored_message ''a3'' ''A'' 3 ''third''"
  have n: "message_fetch_one chat_two_conversations (msg_id ?r) = None"
    by (simp add: ex_defs prog_defs)
  obtain m d' where s: "save_message alice chat_two_conversations ?r = (Inr m, d')"
    and m: "msg_id m = ''a3''"
    by (simp add: ex_defs prog_defs)
  from create_bumps_unread_and_sets_last_message [OF n s] s m show ?thesis
    by (simp add: ex_defs)
qed

section \<open>History rows\<close>

text \<open>
  Claim C9. Take two successful saves in a row of records with the same id. If the
  message was stored before them (two edits), the first appends exactly one history row,
  the message as stored before it, and the second exactly one more, the message as the
  first edit stored it, content and revision included. If it was not stored before them
  (a creation followed by an edit), the creation appends no history row and the edit
  appends the created message.
\<close>

theorem history_rows_on_edit:
  assumes "save_message e d r1 = (Inr m1, d1)"
    and "save_message e d1 r2 = (Inr m2, d2)"
    and "msg_id r2 = msg_id r1"
  shows "message_fetch_one d1 (msg_id r1) = Some m1
       \<and> (message_fetch_one d (msg_id r1) = None \<longrightarrow>
            message_history_table d1 = message_history_table d
            \<and> message_history_table d2 = message_history_table d @ [m1])
       \<and> (\<forall>orig. message_fetch_one d (msg_id r1) = Some orig \<longrightarrow>
            message_history_table d1 = message_history_table d @ [orig]
            \<and> message_history_table d2 = message_history_table d @ [orig, m1])"
proof -
  have f1: "message_fetch_one d1 (msg_id r1) = Some m1"
    by (rule save_history(1) [OF assms(1)])
  with assms(3) have "message_fetch_one d1 (msg_id r2) = Some m1" by simp
  then have h2: "message_history_table d2 = message_history_table d1 @ [m1]"
    by (rule save_history(3) [OF assms(2)])
  have c: "message_fetch_one d (msg_id r1) = None \<longrightarrow>
            message_history_table d1 = message_history_table d
            \<and> message_history_table d2 = message_history_table d @ [m1]"
    using save_history(2) [OF assms(1)] h2 by simp
  have u: "\<forall>orig. message_fetch_one d (msg_id r1) = Some orig \<longrightarrow>
            message_history_table d1 = message_history_table d @ [orig]
            \<and> message_history_table d2 = message_history_table d @ [orig, m1]"
    using save_history(3) [OF assms(1)] h2 by simp
  from f1 c u show ?thesis by (intro conjI)
qed

theorem history_rows_on_edit_witness:
  "map (\<lambda>h. (body h, revision h))
     (message_history_table
        (snd (save_message alice
               (snd (save_message alice chat_one_conversation
                      (stored_message ''a1'' ''A'' 1 ''second version'')))
               ((stored_message ''a1'' ''A'' 1 ''third version'')\<lparr>revision := 2\<rparr>))))
     = [(''first'', 1), (''second version'', 1)]
   \<and> message_history_table
        (snd (save_message alice chat_one_conversation (stored_message ''a3'' ''A'' 3 ''third'')))
     = []"
proof -
  let ?r1 = "stored_message ''a1'' ''A'' 1 ''second version''"
  let ?r2 = "(stored_message ''a1'' ''A'' 1 ''third version'')\<lparr>revision := 2\<rparr>"
  let ?r3 = "stored_message ''a3'' ''A'' 3 ''third''"
  obtain m1 d1 where s1: "save_message alice chat_one_conversation ?r1 = (Inr m1, d1)"
    and m1: "body m1 = ''second version''" "revision m1 = 1"
    by (simp add: ex_defs prog_defs)
  obtain m2 d2 where s2: "save_message alice d1 ?r2 = (Inr m2, d2)"
    using s1 by (auto simp: ex_defs prog_defs)
  have i: "msg_id ?r2 = msg_id ?r1" by (simp add: stored_message_def)
  have o: "message_fetch_one chat_one_conversation (msg_id ?r1)
             = Some (stored_message ''a1'' ''A'' 1 ''first'')"
    by (simp add: ex_defs prog_defs)
  obtain m3 d3 where s3: "save_message alice chat_one_conversation ?r3 = (Inr m3, d3)"
    by (simp add: ex_defs prog_defs)
  obtain m4 d4 where s4: "save_message alice d3 ?r3 = (Inr m4, d4)"
    using s3 by (auto simp: ex_defs prog_defs)
  have n: "message_fetch_one chat_one_conversation (msg_id ?r3) = None"
    by (simp add: ex_defs prog_defs)
  have e: "message_history_table chat_one_conversation = []"
    by (simp add: chat_one_conversation_def)
  from history_rows_on_edit [OF s1 s2 i] o s1 s2 m1 e
  have a: "map (\<lambda>h. (body h, revision h)) (message_history_table (snd (save_message alice
             (snd (save_message alice chat_one_conversation ?r1)) ?r2)))
           = [(''first'', 1), (''second version'', 1)]"
    by (simp add: stored_message_def)
  from history_rows_on_edit [OF s3 s4 refl] n s3 e
  have b: "message_history_table (snd (save_message alice chat_one_conversation ?r3)) = []"
    by simp
  from a b show ?thesis by (intro conjI)
qed

section \<open>The membership guard\<close>

text \<open>
  Claim C10, as stated, at a concrete save: \<open>mallory\<close> has no UserConversation row for
  conversation \<open>A\<close> and saves the deleted message \<open>a2\<close>; the save is rejected with
  \<^verbatim>\<open>AlreadyDeletedException\<close>, not with \<^verbatim>\<open>NotInConversationException\<close>, because the
  deleted check comes first.
\<close>

theorem deleted_check_precedes_membership:
  "user_conversation_fetch_one mallory chat_after_delete ''A'' = None
   \<and> map_option deleted (message_fetch_one chat_after_delete ''a2'') = Some True
   \<and> handle_message_before_save mallory chat_after_delete
        (stored_message ''a2'' ''A'' 2 ''again'') (message_fetch_one chat_after_delete ''a2'')
       = Inl AlreadyDeletedException
   \<and> fst (save_message mallory chat_after_delete (stored_message ''a2'' ''A'' 2 ''again''))
       \<noteq> Inl NotInConversationException"
  by (simp add: ex_defs prog_defs)

text \<open>
  Claim C10, amended. When the actor has no UserConversation row for the record's
  conversation, every save, creation or edit alike, is rejected before any state change:
  with \<^verbatim>\<open>NotInConversationException\<close> when the stored original is absent or not deleted,
  and with \<^verbatim>\<open>AlreadyDeletedException\<close> when the stored original is deleted.
\<close>

theorem membership_checked_on_every_save:
  assumes "user_conversation_fetch_one e d (conversation_id r) = None"
  shows "((case original of None \<Rightarrow> True | Some orig \<Rightarrow> \<not> deleted orig) \<longrightarrow>
            handle_message_before_save e d r original = Inl NotInConversationException)
       \<and> ((case original of None \<Rightarrow> False | Some orig \<Rightarrow> deleted orig) \<longrightarrow>
            handle_message_before_save e d r original = Inl AlreadyDeletedException)
       \<and> save_message e d r =
           (Inl (if (case message_fetch_one d (msg_id r) of None \<Rightarrow> False
                     | Some orig \<Rightarrow> deleted orig)
                 then AlreadyDeletedException else NotInConversationException), d)"
  using assms
  by (simp add: handle_message_before_save_def save_message_def split: option.splits)

theorem membership_checked_on_every_save_witness:
  "save_message mallory chat_one_conversation (stored_message ''a3'' ''A'' 3 ''third'')
     = (Inl NotInConversationException, chat_one_conversation)
   \<and> save_message mallory chat_one_conversation (stored_message ''a1'' ''A'' 1 ''edited'')
     = (Inl NotInConversationException, chat_one_conversation)
   \<and> save_message mallory chat_after_delete (stored_message ''a2'' ''A'' 2 ''again'')
     = (Inl AlreadyDeletedException, chat_after_delete)"
proof -
  have u: "user_conversation_fetch_one mallory chat_one_conversation
             (conversation_id (stored_message ''a3'' ''A'' 3 ''third'')) = None"
          "user_conversation_fetch_one mallory chat_one_conversation
             (conversation_id (stored_message ''a1'' ''A'' 1 ''edited'')) = None"
          "user_conversation_fetch_one mallory chat_after_delete
             (conversation_id (stored_message ''a2'' ''A'' 2 ''again'')) = None"
    by (simp_all add: ex_defs prog_defs)
  have f: "message_fetch_one chat_one_conversation (msg_id (stored_message ''a3'' ''A'' 3 ''third'')) = None"
          "map_option deleted (message_fetch_one chat_one_conversation
             (msg_id (stored_message ''a1'' ''A'' 1 ''edited''))) = Some False"
          "map_option deleted (message_fetch_one chat_after_delete
             (msg_id (stored_message ''a2'' ''A'' 2 ''again''))) = Some True"
    by (simp_all add: ex_defs prog_defs)
  from membership_checked_on_every_save [OF u(1), of None]
       membership_checked_on_every_save [OF u(2), of None]
       membership_checked_on_every_save [OF u(3), of None] f
  show ?thesis by (auto split: option.splits)
qed

end
